theory Spec2Isabelle
  imports Complex_Main "HOL-Library.Word" "HOL-Library.Sublist"
begin

section \<open>JavaScript values used by the pages\<close>

text \<open>
  A JavaScript string is a sequence of 16-bit code units; \<open>length\<close> counts code units.
  String literals of the source are ASCII and are written with \<open>js\<close>. Messages passed to
  \<open>setError\<close> and the string values of the union types are never measured or searched
  as user text, so they stay HOL strings.
\<close>

type_synonym code_unit = "16 word"
type_synonym jsstring = "code_unit list"

definition js :: "string \<Rightarrow> jsstring" where
  "js s = map of_char s"

text \<open>
  \<open>String.prototype.trim\<close> removes the code units of WhiteSpace and LineTerminator
  from both ends.
\<close>

definition isWhiteSpace :: "code_unit \<Rightarrow> bool" where
  "isWhiteSpace c =
     (c \<in> set [0x0009, 0x000A, 0x000B, 0x000C, 0x000D, 0x0020, 0x00A0, 0x1680,
                0x2028, 0x2029, 0x202F, 0x205F, 0x3000, 0xFEFF]
      \<or> (0x2000 \<le> c \<and> c \<le> 0x200A))"

definition trim :: "jsstring \<Rightarrow> jsstring" where
  "trim s = rev (dropWhile isWhiteSpace (rev (dropWhile isWhiteSpace s)))"

text \<open>\<open>s.includes(q)\<close>: \<open>q\<close> occurs in \<open>s\<close> as a contiguous run of code units.\<close>

definition js_includes :: "jsstring \<Rightarrow> jsstring \<Rightarrow> bool" where
  "js_includes s q = sublist q s"

text \<open>
  \<open>String.prototype.toLowerCase\<close> is the Unicode mapping of the runtime. The functions
  that call it take it as the parameter \<open>toLowerCase\<close>; on strings of ASCII code units it
  is \<open>toLowerCaseASCII\<close>.
\<close>

definition toLowerCaseASCII :: "jsstring \<Rightarrow> jsstring" where
  "toLowerCaseASCII s = map (\<lambda>c. if 0x41 \<le> c \<and> c \<le> 0x5A then c + 0x20 else c) s"

text \<open>Truthiness of \<open>string | null | undefined\<close>: null, undefined and \<open>''\<close> are falsy.\<close>

fun truthy :: "jsstring option \<Rightarrow> bool" where
  "truthy None = False"
| "truthy (Some s) = (s \<noteq> [])"

text \<open>\<open>x || d\<close> on such a value.\<close>

definition or_else :: "jsstring option \<Rightarrow> jsstring option \<Rightarrow> jsstring option" where
  "or_else x d = (if truthy x then x else d)"

section \<open>Data model (types/poem.ts, types/verse.ts)\<close>

datatype PoemType = individual | full

datatype Language = English | French | Arabic | Lisan_al_Dawah | Urdu

datatype SubmissionMethod = upload | recording | manual

datatype Status = araz_done | araz_pending

fun PoemType_str :: "PoemType \<Rightarrow> string" where
  "PoemType_str individual = ''individual''"
| "PoemType_str full = ''full''"

fun Language_str :: "Language \<Rightarrow> string" where
  "Language_str English = ''English''"
| "Language_str French = ''French''"
| "Language_str Arabic = ''Arabic''"
| "Language_str Lisan_al_Dawah = ''Lisan al-Dawah''"
| "Language_str Urdu = ''Urdu''"

fun Status_str :: "Status \<Rightarrow> string" where
  "Status_str araz_done = ''araz_done''"
| "Status_str araz_pending = ''araz_pending''"

record Author =
  author_id :: jsstring
  author_name :: jsstring

text \<open>
  \<open>interface Poem\<close>. Ratings are JavaScript numbers; the pages only compare them, subtract
  them in a sort comparator and pass them on, and \<open>NaN\<close> is not modelled, so they are
  rationals. An optional field (\<open>?:\<close>) is \<open>None\<close> when undefined or null.
\<close>

record Poem =
  poem_id :: jsstring
  poem_type :: PoemType
  content :: "jsstring option"
  language :: Language
  submissionMethod :: SubmissionMethod
  author :: Author
  status :: Status
  approved :: bool
  rating :: "rat option"
  fileName :: "jsstring option"
  audioFileName :: "jsstring option"
  arazContent :: "jsstring option"
  inspiredBy :: "jsstring option"
  featured :: bool
  featuredDate :: "jsstring option"
  entryDate :: jsstring

text \<open>\<open>interface ApiPoem\<close>: a poem as the backend's \<open>GET /api/poems\<close> returns it.\<close>

record ApiPoem =
  api_id :: jsstring
  api_type :: PoemType
  api_content :: "jsstring option"
  api_language :: Language
  api_submissionMethod :: SubmissionMethod
  api_author :: Author
  api_status :: Status
  api_approved :: bool
  api_rating :: "rat option"
  api_fileName :: "jsstring option"
  api_audioFileName :: "jsstring option"
  api_arazContent :: "jsstring option"
  api_inspiredBy :: "jsstring option"
  api_featured :: bool
  api_featuredDate :: "jsstring option"
  api_createdAt :: jsstring

text \<open>\<open>x ?? d\<close> and \<open>x || d\<close> on \<open>number | null\<close>: \<open>||\<close> also replaces \<open>0\<close>.\<close>

definition nullish :: "rat option \<Rightarrow> rat \<Rightarrow> rat" where
  "nullish x d = (case x of None \<Rightarrow> d | Some r \<Rightarrow> r)"

definition number_or :: "rat option \<Rightarrow> rat \<Rightarrow> rat" where
  "number_or x d = (case x of None \<Rightarrow> d | Some r \<Rightarrow> if r = 0 then d else r)"

section \<open>Mapping the backend's poems to the pages' poems\<close>

text \<open>
  The mapping inside \<open>fetchPoems\<close> of AdminReviewPage, AdminPoemCheckingPage and
  AdminFeaturedPoemPage (the three are the same object literal).
\<close>

definition formatPoem :: "ApiPoem \<Rightarrow> Poem" where
  "formatPoem apiPoem =
     \<lparr>poem_id = api_id apiPoem,
      poem_type = api_type apiPoem,
      content = or_else (api_content apiPoem) (Some (js ''Uploaded content'')),
      language = api_language apiPoem,
      submissionMethod = api_submissionMethod apiPoem,
      author = \<lparr>author_id = author_id (api_author apiPoem),
                author_name = author_name (api_author apiPoem)\<rparr>,
      status = api_status apiPoem,
      approved = api_approved apiPoem,
      rating = Some (nullish (api_rating apiPoem) 0),
      fileName = or_else (api_fileName apiPoem) None,
      audioFileName = or_else (api_audioFileName apiPoem) None,
      arazContent = or_else (api_arazContent apiPoem) None,
      inspiredBy = or_else (api_inspiredBy apiPoem) None,
      featured = (api_featured apiPoem \<or> False),
      featuredDate = api_featuredDate apiPoem,
      entryDate = api_createdAt apiPoem\<rparr>"

text \<open>
  BestPoemPage: the fetched poems are filtered on their rating, mapped, sorted by rating
  descending (\<open>Array.prototype.sort\<close> is stable) and cut to three. The mapping sets no
  \<open>featuredDate\<close>.
\<close>

definition formatBestPoem :: "ApiPoem \<Rightarrow> Poem" where
  "formatBestPoem apiPoem =
     \<lparr>poem_id = api_id apiPoem,
      poem_type = api_type apiPoem,
      content = or_else (api_content apiPoem) (Some (js ''Uploaded content'')),
      language = api_language apiPoem,
      submissionMethod = api_submissionMethod apiPoem,
      author = \<lparr>author_id = author_id (api_author apiPoem),
                author_name = author_name (api_author apiPoem)\<rparr>,
      status = api_status apiPoem,
      approved = api_approved apiPoem,
      rating = Some (nullish (api_rating apiPoem) 0),
      fileName = or_else (api_fileName apiPoem) None,
      audioFileName = or_else (api_audioFileName apiPoem) None,
      arazContent = or_else (api_arazContent apiPoem) None,
      inspiredBy = or_else (api_inspiredBy apiPoem) None,
      featured = api_featured apiPoem,
      featuredDate = None,
      entryDate = api_createdAt apiPoem\<rparr>"

definition hasRating :: "ApiPoem \<Rightarrow> bool" where
  "hasRating poem = (case api_rating poem of None \<Rightarrow> False | Some r \<Rightarrow> r \<ge> 0)"

definition sortByRatingDesc :: "Poem list \<Rightarrow> Poem list" where
  "sortByRatingDesc ps = sort_key (\<lambda>p. - nullish (rating p) 0) ps"

definition bestPoems :: "ApiPoem list \<Rightarrow> Poem list" where
  "bestPoems apiPoems = take 3 (sortByRatingDesc (map formatBestPoem (filter hasRating apiPoems)))"

section \<open>State of the pages that list poems\<close>

text \<open>
  The \<open>useState\<close> variables the poem-listing pages share, and the ones each page adds.
  The filters hold the value of a \<open>select\<close>: \<open>''all''\<close> or the string of a union member.
  Every handler below takes the outcome of its HTTP calls as arguments (a rejected
  promise is \<open>False\<close> or \<open>None\<close>) and returns the state after its \<open>finally\<close> block;
  \<open>new Date().toISOString()\<close> is the argument \<open>now\<close>. Handlers run one after the
  other, each on the state the previous one left: the pages disable their buttons while
  \<open>loading\<close> is set. \<open>viewMode\<close> of ViewPoemsPage, which nothing below reads, is left
  out.
\<close>

record PoemListPage =
  poems :: "Poem list"
  filteredPoems :: "Poem list"
  selectedPoemId :: "jsstring option"
  typeFilter :: string
  languageFilter :: string
  loading :: bool
  error :: "string option"

record FeaturedPage = PoemListPage +
  featuredPoem :: "Poem option"

record StatusFilteredPage = PoemListPage +
  statusFilter :: string

record CheckingPage = StatusFilteredPage +
  showArazUploadModal :: bool
  arazContentInput :: jsstring
  selectedFile :: "jsstring option"

record ReviewPage = StatusFilteredPage +
  showRatingModal :: bool
  currentRating :: rat
  hoverRating :: rat

record ViewPage = StatusFilteredPage +
  searchQuery :: jsstring

section \<open>AdminFeaturedPoemPage\<close>

definition fetchPoems_featured :: "jsstring option \<Rightarrow> ApiPoem list option \<Rightarrow> FeaturedPage \<Rightarrow> FeaturedPage" where
  "fetchPoems_featured token response st =
     (if \<not> truthy token then st
      else case response of
        None \<Rightarrow> st\<lparr>error := Some ''Failed to load approved poems.'', loading := False\<rparr>
      | Some apiPoems \<Rightarrow>
          (let formattedPoems = map formatPoem apiPoems
           in st\<lparr>poems := formattedPoems,
                 featuredPoem := find featured formattedPoems,
                 loading := False\<rparr>))"

definition handleFeaturePoem :: "bool \<Rightarrow> jsstring \<Rightarrow> jsstring \<Rightarrow> FeaturedPage \<Rightarrow> FeaturedPage" where
  "handleFeaturePoem patched now poemId st =
     (if patched then
        (let updatedPoems =
               map (\<lambda>poem. poem\<lparr>featured := (if poem_id poem = poemId then True else False),
                                 featuredDate := (if poem_id poem = poemId then Some now else None)\<rparr>)
                   (poems st)
         in st\<lparr>poems := updatedPoems,
               featuredPoem := find (\<lambda>poem. poem_id poem = poemId) updatedPoems,
               loading := False\<rparr>)
      else st\<lparr>error := Some ''Failed to feature Nazm.'', loading := False\<rparr>)"

definition handleUnfeaturePoem :: "bool \<Rightarrow> FeaturedPage \<Rightarrow> FeaturedPage" where
  "handleUnfeaturePoem patched st =
     (case featuredPoem st of
        None \<Rightarrow> st
      | Some fp \<Rightarrow>
          if patched then
            st\<lparr>poems := map (\<lambda>poem. poem\<lparr>featured := False, featuredDate := None\<rparr>) (poems st),
               featuredPoem := None,
               loading := False\<rparr>
          else st\<lparr>error := Some ''Failed to unfeature Nazm.'', loading := False\<rparr>)"

text \<open>A sequence of feature and unfeature clicks, each with the outcome of its request.\<close>

datatype FeatureOp = Feature bool jsstring jsstring | Unfeature bool

fun applyFeatureOp :: "FeatureOp \<Rightarrow> FeaturedPage \<Rightarrow> FeaturedPage" where
  "applyFeatureOp (Feature patched now poemId) st = handleFeaturePoem patched now poemId st"
| "applyFeatureOp (Unfeature patched) st = handleUnfeaturePoem patched st"

definition runFeatureOps :: "FeatureOp list \<Rightarrow> FeaturedPage \<Rightarrow> FeaturedPage" where
  "runFeatureOps ops st = fold applyFeatureOp ops st"

definition featuredCount :: "Poem list \<Rightarrow> nat" where
  "featuredCount ps = length (filter featured ps)"

text \<open>
  The page's \<open>featuredPoem\<close> agrees with the list: when it is null, no poem of the list
  is featured. \<open>fetchPoems\<close> establishes this and both handlers keep it.
\<close>

definition featuredPoemTracksList :: "FeaturedPage \<Rightarrow> bool" where
  "featuredPoemTracksList st = (featuredPoem st = None \<longrightarrow> filter featured (poems st) = [])"

section \<open>AdminPoemCheckingPage\<close>

text \<open>The effect that recomputes \<open>filteredPoems\<close> from \<open>poems\<close> and the three filters.\<close>

definition applyFilters :: "string \<Rightarrow> string \<Rightarrow> string \<Rightarrow> Poem list \<Rightarrow> Poem list" where
  "applyFilters statusF typeF languageF ps =
     (let filtered1 = (if statusF \<noteq> ''all''
                       then filter (\<lambda>poem. Status_str (status poem) = statusF) ps else ps);
          filtered2 = (if typeF \<noteq> ''all''
                       then filter (\<lambda>poem. PoemType_str (poem_type poem) = typeF) filtered1
                       else filtered1);
          filtered3 = (if languageF \<noteq> ''all''
                       then filter (\<lambda>poem. Language_str (language poem) = languageF) filtered2
                       else filtered2)
      in filtered3)"

definition filterEffect :: "CheckingPage \<Rightarrow> CheckingPage" where
  "filterEffect st =
     st\<lparr>filteredPoems := applyFilters (statusFilter st) (typeFilter st) (languageFilter st) (poems st)\<rparr>"

definition handleStatusUpdate :: "bool \<Rightarrow> jsstring \<Rightarrow> Status \<Rightarrow> CheckingPage \<Rightarrow> CheckingPage" where
  "handleStatusUpdate put_ok poemId newStatus st =
     (if put_ok then
        st\<lparr>poems := map (\<lambda>poem. if poem_id poem = poemId then poem\<lparr>status := newStatus\<rparr> else poem)
                         (poems st),
           loading := False\<rparr>
      else st\<lparr>error := Some ''Failed to update status.'', loading := False\<rparr>)"

text \<open>
  The body of \<open>POST /api/poems/{id}/araz\<close>: the form data holds \<open>araz_content\<close> when the
  trimmed text is not empty, and \<open>araz_file\<close> when a file is selected.
\<close>

record ArazRequest =
  araz_poemId :: jsstring
  araz_content :: "jsstring option"
  araz_file :: "jsstring option"

text \<open>\<open>handleArazUpload\<close> returns the new state and the request it sent, if any.\<close>

definition handleArazUpload ::
    "jsstring option \<Rightarrow> bool \<Rightarrow> CheckingPage \<Rightarrow> CheckingPage \<times> ArazRequest option" where
  "handleArazUpload token post_ok st =
     (if \<not> truthy (selectedPoemId st)
         \<or> (trim (arazContentInput st) = [] \<and> selectedFile st = None)
         \<or> \<not> truthy token
      then (st, None)
      else
        (case find (\<lambda>p. Some (poem_id p) = selectedPoemId st) (poems st) of
           None \<Rightarrow>
             (st\<lparr>error := Some ''Cannot upload araz version. Nazm must be approved first.'',
                 loading := False\<rparr>, None)
         | Some poem \<Rightarrow>
             if \<not> approved poem then
               (st\<lparr>error := Some ''Cannot upload araz version. Nazm must be approved first.'',
                   loading := False\<rparr>, None)
             else
               (let request = \<lparr>araz_poemId = (case selectedPoemId st of Some i \<Rightarrow> i | None \<Rightarrow> []),
                               araz_content = (if trim (arazContentInput st) \<noteq> []
                                               then Some (arazContentInput st) else None),
                               araz_file = selectedFile st\<rparr>
                in if post_ok then
                     (st\<lparr>poems := map (\<lambda>poem. if Some (poem_id poem) = selectedPoemId st
                                               then poem\<lparr>arazContent := Some (arazContentInput st),
                                                         status := araz_done\<rparr>
                                               else poem) (poems st),
                         showArazUploadModal := False,
                         arazContentInput := [],
                         selectedFile := None,
                         selectedPoemId := None,
                         loading := False\<rparr>, Some request)
                   else
                     (st\<lparr>error := Some ''Failed to upload araz version.'', loading := False\<rparr>,
                      Some request))))"

section \<open>ViewPoemsPage\<close>

text \<open>The effect that recomputes \<open>filteredPoems\<close> from \<open>poems\<close> and \<open>searchQuery\<close>.\<close>

definition searchMatches :: "(jsstring \<Rightarrow> jsstring) \<Rightarrow> jsstring \<Rightarrow> Poem \<Rightarrow> bool" where
  "searchMatches toLowerCase query poem =
     ((if truthy (content poem)
       then js_includes (toLowerCase (case content poem of Some c \<Rightarrow> c | None \<Rightarrow> [])) query
       else False)
      \<or> js_includes (toLowerCase (js (Language_str (language poem)))) query)"

definition searchEffect :: "(jsstring \<Rightarrow> jsstring) \<Rightarrow> ViewPage \<Rightarrow> ViewPage" where
  "searchEffect toLowerCase st =
     (if searchQuery st = [] then st\<lparr>filteredPoems := poems st\<rparr>
      else
        (let query = toLowerCase (searchQuery st)
         in st\<lparr>filteredPoems := filter (searchMatches toLowerCase query) (poems st)\<rparr>))"

section \<open>AdminReviewPage\<close>

definition openRatingModal :: "jsstring \<Rightarrow> ReviewPage \<Rightarrow> ReviewPage" where
  "openRatingModal poemId st =
     (case find (\<lambda>p. poem_id p = poemId) (poems st) of
        None \<Rightarrow> st\<lparr>error := Some ''Cannot rate an unapproved poem.''\<rparr>
      | Some poem \<Rightarrow>
          if \<not> approved poem then st\<lparr>error := Some ''Cannot rate an unapproved poem.''\<rparr>
          else st\<lparr>selectedPoemId := Some poemId,
                  currentRating := number_or (rating poem) 0,
                  hoverRating := 0,
                  showRatingModal := True\<rparr>)"

definition handleStarClick :: "rat \<Rightarrow> ReviewPage \<Rightarrow> ReviewPage" where
  "handleStarClick r st = st\<lparr>currentRating := r\<rparr>"

text \<open>The body of \<open>PUT /api/poems/{id}/rate\<close>.\<close>

record RateRequest =
  rate_poemId :: jsstring
  rate_rating :: rat

text \<open>
  \<open>handleRatePoem\<close> sends the rating and then fetches the list again; \<open>refetched\<close> is the
  reply to that second request. It returns the new state and the rating request it sent,
  if any.
\<close>

definition handleRatePoem ::
    "jsstring option \<Rightarrow> bool \<Rightarrow> ApiPoem list option \<Rightarrow> ReviewPage \<Rightarrow> ReviewPage \<times> RateRequest option" where
  "handleRatePoem token put_ok refetched st =
     (case selectedPoemId st of
        None \<Rightarrow> (st, None)
      | Some poemId \<Rightarrow>
          if poemId = [] \<or> currentRating st = 0 \<or> \<not> truthy token then (st, None)
          else
            (let request = \<lparr>rate_poemId = poemId, rate_rating = currentRating st\<rparr>
             in if \<not> put_ok then
                  (st\<lparr>error := Some ''Failed to rate poem. Please try again.''\<rparr>, Some request)
                else
                  (case refetched of
                     None \<Rightarrow>
                       (st\<lparr>error := Some ''Failed to rate poem. Please try again.''\<rparr>, Some request)
                   | Some apiPoems \<Rightarrow>
                       (let formattedPoems = map formatPoem apiPoems
                        in (st\<lparr>poems := formattedPoems,
                                filteredPoems := formattedPoems,
                                showRatingModal := False,
                                currentRating := 0,
                                hoverRating := 0,
                                selectedPoemId := None\<rparr>, Some request)))))"

text \<open>
  Rating poem \<open>poemId\<close> with \<open>value\<close> through the page: the star button of the poem's card
  (\<open>openRatingModal\<close>), then, when the modal is rendered (the page is neither loading nor
  showing an error, \<open>showRatingModal\<close> is set and the selected poem is in the list), a
  click on the star of \<open>value\<close> and on Save Rating.
\<close>

definition ratePoemFlow ::
    "jsstring option \<Rightarrow> bool \<Rightarrow> ApiPoem list option \<Rightarrow> jsstring \<Rightarrow> rat \<Rightarrow> ReviewPage
       \<Rightarrow> ReviewPage \<times> RateRequest option" where
  "ratePoemFlow token put_ok refetched poemId v st =
     (let st1 = openRatingModal poemId st
      in if \<not> loading st1 \<and> error st1 = None \<and> showRatingModal st1
            \<and> (case selectedPoemId st1 of
                  None \<Rightarrow> False
                | Some i \<Rightarrow> i \<noteq> [] \<and> find (\<lambda>poem. poem_id poem = i) (poems st1) \<noteq> None)
         then handleRatePoem token put_ok refetched (handleStarClick v st1)
         else (st1, None))"

section \<open>The backend's rating operation\<close>

datatype Role = user | admin

datatype ApiError = ValidationError | NotFound | PermissionDenied | Conflict | TransportError

definition validRatings :: "rat list" where
  "validRatings = [1/2, 1, 3/2, 2, 5/2, 3, 7/2, 4, 9/2, 5]"

text \<open>
  Modelled from the spec: the handler of \<open>PUT /api/poems/{id}/rate\<close> is backend code and
  is not among the sources. \<open>rate(entryId, value)\<close> is for administrators only
  (PermissionDenied is checked first), fails with NotFound when the entry is absent, fails
  with Conflict if the entry is unapproved, requires \<open>value\<close> in \<open>{0.5, 1.0, ..., 5.0}\<close>,
  and overwrites any prior rating.
\<close>

definition rate :: "Role \<Rightarrow> jsstring \<Rightarrow> rat \<Rightarrow> ApiPoem list \<Rightarrow> ApiError + ApiPoem list" where
  "rate role entryId v entries =
     (if role \<noteq> admin then Inl PermissionDenied
      else case find (\<lambda>e. api_id e = entryId) entries of
        None \<Rightarrow> Inl NotFound
      | Some e \<Rightarrow>
          if \<not> api_approved e then Inl Conflict
          else if v \<notin> set validRatings then Inl ValidationError
          else Inr (map (\<lambda>e. if api_id e = entryId then e\<lparr>api_rating := Some v\<rparr> else e) entries))"

section \<open>AdminOpeningVersesPage\<close>

record OpeningVerse =
  verse_id :: jsstring
  verse_text :: jsstring
  verse_author :: jsstring
  verse_language :: Language
  verse_day :: int
  verse_createdAt :: "jsstring option"

text \<open>\<open>response.data\<close> of the verse endpoints.\<close>

record ApiVerse =
  av_id :: jsstring
  av_content :: jsstring
  av_author :: "jsstring option"
  av_language :: Language
  av_day :: int
  av_createdAt :: "jsstring option"

record FormData =
  fd_text :: jsstring
  fd_author :: jsstring
  fd_language :: Language
  fd_day :: int

record VersesPage =
  verses :: "OpeningVerse list"
  showAddForm :: bool
  editingId :: "jsstring option"
  formData :: FormData
  vp_loading :: bool
  vp_error :: "string option"

text \<open>The body sent to the verse endpoints: \<open>PATCH /api/verses/{id}\<close> or \<open>POST /api/verses\<close>.\<close>

record VerseBody =
  vb_content :: jsstring
  vb_author :: jsstring
  vb_language :: Language
  vb_day :: int

datatype VerseRequest = PatchVerse jsstring VerseBody | PostVerse VerseBody

definition orEmpty :: "jsstring option \<Rightarrow> jsstring" where
  "orEmpty x = (case x of None \<Rightarrow> [] | Some s \<Rightarrow> s)"

definition resetForm :: "VersesPage \<Rightarrow> VersesPage" where
  "resetForm st =
     st\<lparr>formData := \<lparr>fd_text = [], fd_author = [], fd_language = English, fd_day = 1\<rparr>,
        showAddForm := False,
        editingId := None,
        vp_error := None\<rparr>"

text \<open>
  \<open>handleSubmit\<close> of the verse form; \<open>response\<close> is the reply to the request it sends
  (\<open>None\<close> when the request fails). It returns the new state and the request, if any.
\<close>

definition handleSubmit_verse :: "ApiVerse option \<Rightarrow> VersesPage \<Rightarrow> VersesPage \<times> VerseRequest option" where
  "handleSubmit_verse response st =
     (if trim (fd_text (formData st)) = [] \<or> trim (fd_author (formData st)) = [] then
        (st\<lparr>vp_error := Some ''Text and Lehen are required.''\<rparr>, None)
      else if fd_day (formData st) < 1 \<or> fd_day (formData st) > 10 then
        (st\<lparr>vp_error := Some ''Day must be between 1 and 10.''\<rparr>, None)
      else
        (let body = \<lparr>vb_content = fd_text (formData st), vb_author = fd_author (formData st),
                     vb_language = fd_language (formData st), vb_day = fd_day (formData st)\<rparr>;
             request = (if truthy (editingId st)
                        then PatchVerse (orEmpty (editingId st)) body else PostVerse body)
         in case response of
              None \<Rightarrow> (st\<lparr>vp_error := Some ''Failed to save verse.'', vp_loading := False\<rparr>, Some request)
            | Some r \<Rightarrow>
                if truthy (editingId st) then
                  ((resetForm
                     (st\<lparr>verses := map (\<lambda>verse. if Some (verse_id verse) = editingId st
                                                then verse\<lparr>verse_text := av_content r,
                                                           verse_author := orEmpty (av_author r),
                                                           verse_language := av_language r,
                                                           verse_day := av_day r,
                                                           verse_createdAt := av_createdAt r\<rparr>
                                                else verse) (verses st)\<rparr>))\<lparr>vp_loading := False\<rparr>,
                   Some request)
                else
                  ((resetForm
                     (st\<lparr>verses := verses st @
                                      [\<lparr>verse_id = av_id r,
                                        verse_text = av_content r,
                                        verse_author = orEmpty (av_author r),
                                        verse_language = av_language r,
                                        verse_day = av_day r,
                                        verse_createdAt = av_createdAt r\<rparr>]\<rparr>))\<lparr>vp_loading := False\<rparr>,
                   Some request)))"

section \<open>SubmitPoemPage\<close>

text \<open>The \<open>errors\<close> object: a key is present when its message is.\<close>

record FormErrors =
  err_content :: "string option"
  err_file :: "string option"
  err_audio :: "string option"
  err_verse :: "string option"

text \<open>
  The state of the page. The fields carry the prefix \<open>sp\<close>: \<open>sp_content\<close> is the state
  variable \<open>content\<close>. A selected \<open>File\<close> is opaque and stands as its name.
\<close>

record SubmitPage =
  sp_poemType :: "PoemType option"
  sp_language :: Language
  sp_inspiredByVerse :: jsstring
  sp_submissionMethod :: "SubmissionMethod option"
  sp_content :: jsstring
  sp_selectedFile :: "jsstring option"
  sp_audioFile :: "jsstring option"
  sp_submitSuccess :: bool
  sp_loading :: bool
  sp_error :: "string option"
  sp_errors :: FormErrors

definition noErrors :: FormErrors where
  "noErrors = \<lparr>err_content = None, err_file = None, err_audio = None, err_verse = None\<rparr>"

text \<open>The object \<open>newErrors\<close> that \<open>validateForm\<close> builds.\<close>

definition newErrors :: "SubmitPage \<Rightarrow> FormErrors" where
  "newErrors st =
     (let e1 = (if sp_inspiredByVerse st = [] then
                  noErrors\<lparr>err_verse := Some ''Please select a Matla for your Nazm''\<rparr>
                else noErrors);
          e2 = (if sp_submissionMethod st = Some manual \<and> trim (sp_content st) = [] then
                  e1\<lparr>err_content := Some ''Nazm content is required''\<rparr>
                else if sp_submissionMethod st = Some manual \<and> length (trim (sp_content st)) < 20 then
                  e1\<lparr>err_content := Some ''Nazm is too short (minimum 20 characters)''\<rparr>
                else e1);
          e3 = (if sp_submissionMethod st = Some upload \<and> sp_selectedFile st = None then
                  e2\<lparr>err_file := Some ''Please select a file to upload''\<rparr>
                else e2);
          e4 = (if sp_submissionMethod st = Some recording \<and> sp_audioFile st = None then
                  e3\<lparr>err_audio := Some ''Please select an audio file to upload''\<rparr>
                else e3)
      in e4)"

text \<open>\<open>validateForm\<close> stores the errors and returns whether the object has no key.\<close>

definition validateForm :: "SubmitPage \<Rightarrow> SubmitPage \<times> bool" where
  "validateForm st = (st\<lparr>sp_errors := newErrors st\<rparr>, newErrors st = noErrors)"

text \<open>The request \<open>handleSubmit\<close> sends: the JSON fields and, for the two uploads, the file.\<close>

record PoemJson =
  pj_type :: "PoemType option"
  pj_language :: Language
  pj_submissionMethod :: "SubmissionMethod option"
  pj_inspiredBy :: jsstring

datatype SubmitRequest =
    PostManual PoemJson jsstring
  | PostUploadFile PoemJson jsstring
  | PostUploadAudio PoemJson jsstring

definition submitRequest :: "SubmitPage \<Rightarrow> SubmitRequest option" where
  "submitRequest st =
     (let poem_json = \<lparr>pj_type = sp_poemType st, pj_language = sp_language st,
                       pj_submissionMethod = sp_submissionMethod st,
                       pj_inspiredBy = sp_inspiredByVerse st\<rparr>
      in if sp_submissionMethod st = Some manual then Some (PostManual poem_json (sp_content st))
         else if sp_submissionMethod st = Some upload \<and> sp_selectedFile st \<noteq> None
           then Some (PostUploadFile poem_json (orEmpty (sp_selectedFile st)))
         else if sp_submissionMethod st = Some recording \<and> sp_audioFile st \<noteq> None
           then Some (PostUploadAudio poem_json (orEmpty (sp_audioFile st)))
         else None)"

text \<open>
  \<open>handleSubmit\<close> of the submission form; \<open>posted\<close> tells whether the request, if one is
  sent, succeeds. It returns the new state and the request, if any.
\<close>

definition handleSubmit_poem :: "jsstring option \<Rightarrow> bool \<Rightarrow> SubmitPage \<Rightarrow> SubmitPage \<times> SubmitRequest option" where
  "handleSubmit_poem token posted st =
     (let (st1, valid) = validateForm st
      in if \<not> valid \<or> \<not> truthy token then
           (st1\<lparr>sp_error := Some ''Please log in and complete the form''\<rparr>, None)
         else if submitRequest st1 \<noteq> None \<and> \<not> posted then
           (st1\<lparr>sp_error := Some ''Failed to submit Nazm. Please try again.'', sp_loading := False\<rparr>,
            submitRequest st1)
         else
           (st1\<lparr>sp_error := None, sp_submitSuccess := True, sp_loading := False\<rparr>, submitRequest st1))"

section \<open>Sample data\<close>

definition samplePoem :: "string \<Rightarrow> bool \<Rightarrow> Poem" where
  "samplePoem i a =
     \<lparr>poem_id = js i, poem_type = individual, content = Some (js ''Roses are red''),
      language = English, submissionMethod = manual,
      author = \<lparr>author_id = js ''u1'', author_name = js ''Amina''\<rparr>,
      status = araz_done, approved = a, rating = Some 0,
      fileName = None, audioFileName = None, arazContent = Some (js ''Roses were red''),
      inspiredBy = Some (js ''v1''), featured = False, featuredDate = None,
      entryDate = js ''2025-06-01''\<rparr>"

definition sampleEntry :: "string \<Rightarrow> bool \<Rightarrow> rat option \<Rightarrow> ApiPoem" where
  "sampleEntry i a r =
     \<lparr>api_id = js i, api_type = individual, api_content = Some (js ''Roses are red''),
      api_language = English, api_submissionMethod = manual,
      api_author = \<lparr>author_id = js ''u1'', author_name = js ''Amina''\<rparr>,
      api_status = araz_pending, api_approved = a, api_rating = r,
      api_fileName = None, api_audioFileName = None, api_arazContent = None,
      api_inspiredBy = Some (js ''v1''), api_featured = False, api_featuredDate = None,
      api_createdAt = js ''2025-06-01''\<rparr>"

definition sampleEntries :: "ApiPoem list" where
  "sampleEntries = [sampleEntry ''p1'' False None, sampleEntry ''p2'' True None]"

definition fourRatedZero :: "ApiPoem list" where
  "fourRatedZero = [sampleEntry ''p1'' True (Some 0), sampleEntry ''p2'' True (Some 0),
                    sampleEntry ''p3'' True (Some 0), sampleEntry ''p4'' True (Some 0)]"

definition sampleFeaturedPage :: FeaturedPage where
  "sampleFeaturedPage =
     \<lparr>poems = [samplePoem ''p1'' True, samplePoem ''p2'' True], filteredPoems = [],
      selectedPoemId = None, typeFilter = ''all'', languageFilter = ''all'',
      loading = False, error = None, featuredPoem = None\<rparr>"

definition sampleFeatureOps :: "FeatureOp list" where
  "sampleFeatureOps =
     [Feature True (js ''t1'') (js ''p1''), Feature True (js ''t2'') (js ''p2''), Unfeature False]"

definition sampleCheckingPage :: "string \<Rightarrow> CheckingPage" where
  "sampleCheckingPage i =
     \<lparr>poems = [samplePoem ''p1'' False, samplePoem ''p2'' True], filteredPoems = [],
      selectedPoemId = Some (js i), typeFilter = ''all'', languageFilter = ''all'',
      loading = False, error = None, statusFilter = ''all'',
      showArazUploadModal = True, arazContentInput = js ''Roses were redder'',
      selectedFile = None\<rparr>"

definition sampleReviewPage :: ReviewPage where
  "sampleReviewPage =
     \<lparr>poems = [samplePoem ''p1'' False, samplePoem ''p2'' True],
      filteredPoems = [samplePoem ''p1'' False, samplePoem ''p2'' True],
      selectedPoemId = None, typeFilter = ''all'', languageFilter = ''all'',
      loading = False, error = None, statusFilter = ''all'',
      showRatingModal = False, currentRating = 0, hoverRating = 0\<rparr>"

definition sampleViewPage :: ViewPage where
  "sampleViewPage =
     \<lparr>poems = [samplePoem ''p1'' True], filteredPoems = [samplePoem ''p1'' True],
      selectedPoemId = None, typeFilter = ''all'', languageFilter = ''all'',
      loading = False, error = None, statusFilter = ''all'',
      searchQuery = js ''english''\<rparr>"

definition sampleVersesPage :: "int \<Rightarrow> VersesPage" where
  "sampleVersesPage d =
     \<lparr>verses = [], showAddForm = True, editingId = None,
      formData = \<lparr>fd_text = js ''Matla'', fd_author = js ''Lehen'', fd_language = English,
                  fd_day = d\<rparr>,
      vp_loading = False, vp_error = None\<rparr>"

definition sampleSubmitPage :: "string \<Rightarrow> SubmitPage" where
  "sampleSubmitPage c =
     \<lparr>sp_poemType = Some individual, sp_language = English, sp_inspiredByVerse = js ''v1'',
      sp_submissionMethod = Some manual, sp_content = js c,
      sp_selectedFile = None, sp_audioFile = None, sp_submitSuccess = False,
      sp_loading = False, sp_error = None, sp_errors = noErrors\<rparr>"

section \<open>Auxiliary facts\<close>

lemma samplePoem_sel:
  "poem_id (samplePoem i a) = js i"
  "approved (samplePoem i a) = a"
  "status (samplePoem i a) = araz_done"
  "featured (samplePoem i a) = False"
  by (simp_all add: samplePoem_def)

lemma sampleEntry_sel:
  "api_id (sampleEntry i a r) = js i"
  "api_approved (sampleEntry i a r) = a"
  "api_rating (sampleEntry i a r) = r"
  by (simp_all add: sampleEntry_def)

lemma length_filter_key_distinct:
  "distinct (map f xs) \<Longrightarrow> length (filter (\<lambda>x. f x = a) xs) \<le> 1"
proof (induction xs)
  case Nil
  then show ?case by simp
next
  case (Cons x xs)
  show ?case
  proof (cases "f x = a")
    case True
    with Cons.prems have "\<forall>y \<in> set xs. f y \<noteq> a" by (auto simp: image_iff)
    then have "filter (\<lambda>x. f x = a) xs = []" by (simp add: filter_empty_conv)
    with True show ?thesis by simp
  next
    case False
    with Cons show ?thesis by simp
  qed
qed

lemma find_map_update:
  assumes "\<And>p. P (g p) = P p"
  shows "find P (map g xs) = map_option g (find P xs)"
  using assms by (induction xs) simp_all

lemma find_map_if_update:
  assumes "\<And>p. key (g p) = key p"
  shows "find (\<lambda>p. key p = i) (map (\<lambda>p. if key p = i then g p else p) xs)
         = map_option g (find (\<lambda>p. key p = i) xs)"
  using assms by (induction xs) simp_all

subsection \<open>The featured page\<close>

lemma ids_handleFeaturePoem:
  "map poem_id (poems (handleFeaturePoem patched now poemId st)) = map poem_id (poems st)"
  by (simp add: handleFeaturePoem_def Let_def comp_def)

lemma ids_handleUnfeaturePoem:
  "map poem_id (poems (handleUnfeaturePoem patched st)) = map poem_id (poems st)"
  by (simp add: handleUnfeaturePoem_def comp_def split: option.splits)

lemma featuredCount_handleFeaturePoem:
  assumes "distinct (map poem_id (poems st))"
  shows "featuredCount (poems (handleFeaturePoem True now poemId st)) \<le> 1"
proof -
  have "featuredCount (poems (handleFeaturePoem True now poemId st))
        = length (filter (\<lambda>p. poem_id p = poemId) (poems st))"
    by (simp add: featuredCount_def handleFeaturePoem_def Let_def filter_map comp_def)
  with length_filter_key_distinct [OF assms, of poemId] show ?thesis by simp
qed

lemma featuredCount_handleFeaturePoem_failed:
  "featuredCount (poems (handleFeaturePoem False now poemId st)) = featuredCount (poems st)"
  by (simp add: handleFeaturePoem_def)

lemma featuredCount_handleUnfeaturePoem:
  "featuredCount (poems (handleUnfeaturePoem patched st)) \<le> featuredCount (poems st)"
  by (simp add: handleUnfeaturePoem_def featuredCount_def filter_map comp_def split: option.splits)

lemma applyFeatureOp_keeps:
  assumes "distinct (map poem_id (poems st))" and "featuredCount (poems st) \<le> 1"
  shows "distinct (map poem_id (poems (applyFeatureOp op st)))
         \<and> featuredCount (poems (applyFeatureOp op st)) \<le> 1"
proof (cases op)
  case (Feature patched now poemId)
  show ?thesis
  proof (cases patched)
    case True
    with Feature assms featuredCount_handleFeaturePoem [OF assms(1), of now poemId]
    show ?thesis
      by (simp add: ids_handleFeaturePoem)
  next
    case False
    with Feature assms show ?thesis
      by (simp add: ids_handleFeaturePoem featuredCount_handleFeaturePoem_failed)
  qed
next
  case (Unfeature patched)
  have "featuredCount (poems (handleUnfeaturePoem patched st)) \<le> 1"
    using featuredCount_handleUnfeaturePoem [of patched st] assms(2) by linarith
  with Unfeature assms show ?thesis
    by (simp add: ids_handleUnfeaturePoem)
qed

lemma poems_feature_twice:
  "poems (handleFeaturePoem True t2 b (handleFeaturePoem True t1 a st))
   = map (\<lambda>poem. poem\<lparr>featured := (poem_id poem = b),
                       featuredDate := (if poem_id poem = b then Some t2 else None)\<rparr>) (poems st)"
  by (simp add: handleFeaturePoem_def Let_def comp_def)

text \<open>
  \<open>featuredPoemTracksList\<close> holds once the list has been fetched, and every later
  fetch, feature and unfeature keeps it.
\<close>

lemma featuredPoemTracksList_fetched:
  "truthy token \<Longrightarrow> featuredPoemTracksList (fetchPoems_featured token (Some apiPoems) st)"
  by (auto simp: featuredPoemTracksList_def fetchPoems_featured_def Let_def find_None_iff
        filter_empty_conv)

lemma featuredPoemTracksList_fetch:
  "featuredPoemTracksList st \<Longrightarrow> featuredPoemTracksList (fetchPoems_featured token response st)"
  by (auto simp: featuredPoemTracksList_def fetchPoems_featured_def Let_def find_None_iff
        filter_empty_conv split: option.splits)

lemma featuredPoemTracksList_feature:
  "featuredPoemTracksList st \<Longrightarrow> featuredPoemTracksList (handleFeaturePoem patched now poemId st)"
  by (auto simp: featuredPoemTracksList_def handleFeaturePoem_def Let_def find_None_iff
        filter_empty_conv)

lemma featuredPoemTracksList_unfeature:
  "featuredPoemTracksList st \<Longrightarrow> featuredPoemTracksList (handleUnfeaturePoem patched st)"
  by (auto simp: featuredPoemTracksList_def handleUnfeaturePoem_def filter_empty_conv
        split: option.splits)

subsection \<open>The best poems\<close>

lemma rating_formatBestPoem:
  "rating (formatBestPoem e) = Some (nullish (api_rating e) 0)"
  by (simp add: formatBestPoem_def)

lemma set_take_conv_nth:
  "(q \<in> set (take n xs)) = (\<exists>i < min n (length xs). xs ! i = q)"
  by (auto simp: in_set_conv_nth)

lemma bestPoems_ignores_unrated:
  "bestPoems (filter (\<lambda>p. api_rating p \<noteq> None) ps) = bestPoems ps"
proof -
  have "filter hasRating (filter (\<lambda>p. api_rating p \<noteq> None) ps) = filter hasRating ps"
    by (induction ps) (auto simp: hasRating_def)
  then show ?thesis by (simp add: bestPoems_def)
qed

lemma set_bestPoems_small:
  assumes "length (filter hasRating ps) \<le> 3"
  shows "set (bestPoems ps) = formatBestPoem ` {p \<in> set ps. hasRating p}"
proof -
  have "length (sortByRatingDesc (map formatBestPoem (filter hasRating ps))) \<le> 3"
    using assms by (simp add: sortByRatingDesc_def)
  then have "bestPoems ps = sortByRatingDesc (map formatBestPoem (filter hasRating ps))"
    by (simp add: bestPoems_def)
  then show ?thesis by (auto simp: sortByRatingDesc_def)
qed

section \<open>The single featured entry\<close>

text \<open>
  C1. At most one entry is featured. On a list of poems whose ids are unique (the data
  model's \<open>id\<close>), every sequence of feature and unfeature clicks, whether their requests
  succeed or fail, keeps the number of poems with \<open>featured = true\<close> at 0 or 1.
\<close>

theorem featured_at_most_one:
  assumes "distinct (map poem_id (poems st))" and "featuredCount (poems st) \<le> 1"
  shows "featuredCount (poems (runFeatureOps ops st)) \<le> 1"
  using assms unfolding runFeatureOps_def
proof (induction ops arbitrary: st)
  case Nil
  then show ?case by simp
next
  case (Cons op ops)
  from applyFeatureOp_keeps [OF Cons.prems]
  have "distinct (map poem_id (poems (applyFeatureOp op st)))"
    and "featuredCount (poems (applyFeatureOp op st)) \<le> 1" by simp_all
  then have "featuredCount (poems (fold applyFeatureOp ops (applyFeatureOp op st))) \<le> 1"
    by (rule Cons.IH)
  then show ?case by simp
qed

theorem featured_at_most_one_witness:
  "distinct (map poem_id (poems sampleFeaturedPage))
   \<and> featuredCount (poems sampleFeaturedPage) \<le> 1
   \<and> featuredCount (poems (runFeatureOps sampleFeatureOps sampleFeaturedPage)) \<le> 1"
proof -
  have h1: "distinct (map poem_id (poems sampleFeaturedPage))"
    by (simp add: sampleFeaturedPage_def samplePoem_sel js_def)
  have h2: "featuredCount (poems sampleFeaturedPage) \<le> 1"
    by (simp add: sampleFeaturedPage_def samplePoem_sel featuredCount_def)
  show ?thesis
    by (rule conjI [OF h1 conjI [OF h2 featured_at_most_one [OF h1 h2]]])
qed

text \<open>
  C2. Featuring \<open>a\<close> and then \<open>b\<close>, two different poems of the list, leaves \<open>a\<close> not
  featured and \<open>b\<close> featured with the date of the second call as its \<open>featuredDate\<close>;
  \<open>b\<close> is the page's featured poem, every poem other than \<open>b\<close> is not featured and has
  no \<open>featuredDate\<close>, and no other field of \<open>a\<close> or \<open>b\<close> changes.
\<close>

theorem feature_then_feature:
  assumes "a \<noteq> b"
    and "find (\<lambda>p. poem_id p = a) (poems st) = Some pa"
    and "find (\<lambda>p. poem_id p = b) (poems st) = Some pb"
    and "st' = handleFeaturePoem True t2 b (handleFeaturePoem True t1 a st)"
  shows "find (\<lambda>p. poem_id p = a) (poems st') = Some (pa\<lparr>featured := False, featuredDate := None\<rparr>)
       \<and> find (\<lambda>p. poem_id p = b) (poems st') = Some (pb\<lparr>featured := True, featuredDate := Some t2\<rparr>)
       \<and> featuredPoem st' = Some (pb\<lparr>featured := True, featuredDate := Some t2\<rparr>)
       \<and> (\<forall>p \<in> set (poems st'). poem_id p \<noteq> b \<longrightarrow> \<not> featured p \<and> featuredDate p = None)"
proof -
  let ?g = "\<lambda>poem. poem\<lparr>featured := (poem_id poem = b),
                          featuredDate := (if poem_id poem = b then Some t2 else None)\<rparr>"
  have ps: "poems st' = map ?g (poems st)"
    using assms(4) by (simp add: poems_feature_twice)
  have fnd: "\<And>i. find (\<lambda>p. poem_id p = i) (poems st') = map_option ?g (find (\<lambda>p. poem_id p = i) (poems st))"
    unfolding ps by (rule find_map_update) simp
  have ida: "poem_id pa = a" using assms(2) by (auto simp: find_Some_iff)
  have idb: "poem_id pb = b" using assms(3) by (auto simp: find_Some_iff)
  have A: "find (\<lambda>p. poem_id p = a) (poems st') = Some (pa\<lparr>featured := False, featuredDate := None\<rparr>)"
    using fnd [of a] assms(1,2) ida by simp
  have B: "find (\<lambda>p. poem_id p = b) (poems st') = Some (pb\<lparr>featured := True, featuredDate := Some t2\<rparr>)"
    using fnd [of b] assms(3) idb by simp
  have C: "featuredPoem st' = find (\<lambda>p. poem_id p = b) (poems st')"
    using assms(4) by (simp add: handleFeaturePoem_def Let_def comp_def)
  have D: "\<forall>p \<in> set (poems st'). poem_id p \<noteq> b \<longrightarrow> \<not> featured p \<and> featuredDate p = None"
    unfolding ps by auto
  from A B C D show ?thesis by simp
qed

theorem feature_then_feature_witness:
  "find (\<lambda>p. poem_id p = js ''p1'')
        (poems (handleFeaturePoem True (js ''t2'') (js ''p2'')
                 (handleFeaturePoem True (js ''t1'') (js ''p1'') sampleFeaturedPage)))
     = Some ((samplePoem ''p1'' True)\<lparr>featured := False, featuredDate := None\<rparr>)
   \<and> find (\<lambda>p. poem_id p = js ''p2'')
        (poems (handleFeaturePoem True (js ''t2'') (js ''p2'')
                 (handleFeaturePoem True (js ''t1'') (js ''p1'') sampleFeaturedPage)))
     = Some ((samplePoem ''p2'' True)\<lparr>featured := True, featuredDate := Some (js ''t2'')\<rparr>)
   \<and> featuredPoem (handleFeaturePoem True (js ''t2'') (js ''p2'')
                 (handleFeaturePoem True (js ''t1'') (js ''p1'') sampleFeaturedPage))
     = Some ((samplePoem ''p2'' True)\<lparr>featured := True, featuredDate := Some (js ''t2'')\<rparr>)
   \<and> list_all (\<lambda>p. poem_id p \<noteq> js ''p2'' \<longrightarrow> \<not> featured p \<and> featuredDate p = None)
        (poems (handleFeaturePoem True (js ''t2'') (js ''p2'')
                 (handleFeaturePoem True (js ''t1'') (js ''p1'') sampleFeaturedPage)))"
proof -
  have h1: "js ''p1'' \<noteq> js ''p2''"
    by (simp add: js_def)
  have h2: "find (\<lambda>p. poem_id p = js ''p1'') (poems sampleFeaturedPage) = Some (samplePoem ''p1'' True)"
    by (simp add: sampleFeaturedPage_def samplePoem_sel)
  have h3: "find (\<lambda>p. poem_id p = js ''p2'') (poems sampleFeaturedPage) = Some (samplePoem ''p2'' True)"
    using h1 by (simp add: sampleFeaturedPage_def samplePoem_sel)
  note T = feature_then_feature [OF h1 h2 h3 refl, of "js ''t2''" "js ''t1''"]
  note T1 = conjunct1 [OF T]
  note T2 = conjunct1 [OF conjunct2 [OF T]]
  note T3 = conjunct1 [OF conjunct2 [OF conjunct2 [OF T]]]
  note T4 = iffD2 [OF list_all_iff conjunct2 [OF conjunct2 [OF conjunct2 [OF T]]]]
  show ?thesis
    by (rule conjI [OF T1 conjI [OF T2 conjI [OF T3 T4]]])
qed

text \<open>
  C9. Unfeature, when it runs (the page holds a featured poem and the request succeeds),
  sets \<open>featured = false\<close> and \<open>featuredDate = null\<close> on every poem of the list, not only
  on the featured one; on a page whose \<open>featuredPoem\<close> agrees with its list, no poem is
  featured after a successful unfeature call.
\<close>

theorem unfeature_clears_every_entry:
  assumes "featuredPoemTracksList st"
  shows "(featuredPoem st \<noteq> None \<longrightarrow>
            poems (handleUnfeaturePoem True st)
              = map (\<lambda>poem. poem\<lparr>featured := False, featuredDate := None\<rparr>) (poems st))
         \<and> (\<forall>p \<in> set (poems (handleUnfeaturePoem True st)). \<not> featured p)"
  using assms
  by (auto simp: featuredPoemTracksList_def handleUnfeaturePoem_def filter_empty_conv
        split: option.splits)

theorem unfeature_clears_every_entry_witness:
  "featuredPoem (handleFeaturePoem True (js ''t1'') (js ''p1'') sampleFeaturedPage) \<noteq> None
   \<and> poems (handleUnfeaturePoem True (handleFeaturePoem True (js ''t1'') (js ''p1'') sampleFeaturedPage))
       = map (\<lambda>poem. poem\<lparr>featured := False, featuredDate := None\<rparr>)
           (poems (handleFeaturePoem True (js ''t1'') (js ''p1'') sampleFeaturedPage))
   \<and> list_all (\<lambda>p. \<not> featured p)
        (poems (handleUnfeaturePoem True
                 (handleFeaturePoem True (js ''t1'') (js ''p1'') sampleFeaturedPage)))"
proof -
  have h0: "featuredPoemTracksList sampleFeaturedPage"
    by (simp add: featuredPoemTracksList_def sampleFeaturedPage_def samplePoem_sel)
  have h: "featuredPoemTracksList (handleFeaturePoem True (js ''t1'') (js ''p1'') sampleFeaturedPage)"
    using h0 by (rule featuredPoemTracksList_feature)
  have f: "featuredPoem (handleFeaturePoem True (js ''t1'') (js ''p1'') sampleFeaturedPage) \<noteq> None"
    by (simp add: handleFeaturePoem_def Let_def sampleFeaturedPage_def samplePoem_sel)
  note T = unfeature_clears_every_entry [OF h]
  note T1 = mp [OF conjunct1 [OF T] f]
  note T2 = iffD2 [OF list_all_iff conjunct2 [OF T]]
  show ?thesis
    by (rule conjI [OF f conjI [OF T1 T2]])
qed

section \<open>Rating\<close>

text \<open>
  C3. Rating needs approval. For a poem \<open>p\<close> of the review page's list and the entry \<open>e\<close>
  the backend stores under the same id: when \<open>p\<close> is unapproved, rating it through the
  page is refused with the message that an unapproved poem cannot be rated, the page
  sends no request and changes nothing else, so the rating stays as it was, and the
  backend's \<open>rate\<close> on an unapproved \<open>e\<close> fails with Conflict for every value; when \<open>p\<close> is
  approved and the value is one of \<open>0.5, 1.0, ..., 5.0\<close>, the page sends exactly that
  value for that id and shows the list the backend returns, and the backend's \<open>rate\<close> on
  an approved \<open>e\<close> sets its rating to the value, whatever it was, and changes no other
  entry.
\<close>

theorem rate_requires_approval:
  assumes "find (\<lambda>p. poem_id p = poemId) (poems st) = Some p"
    and "find (\<lambda>e. api_id e = poemId) entries = Some e"
  shows "(\<not> approved p \<longrightarrow>
            ratePoemFlow token put_ok refetched poemId v st
              = (st\<lparr>error := Some ''Cannot rate an unapproved poem.''\<rparr>, None))
         \<and> (\<not> api_approved e \<longrightarrow> rate admin poemId v entries = Inl Conflict)
         \<and> (approved p \<and> v \<in> set validRatings \<and> truthy token \<and> poemId \<noteq> []
              \<and> \<not> loading st \<and> error st = None \<longrightarrow>
              snd (ratePoemFlow token put_ok refetched poemId v st)
                = Some \<lparr>rate_poemId = poemId, rate_rating = v\<rparr>
              \<and> (put_ok \<longrightarrow> (\<forall>entries'. refetched = Some entries' \<longrightarrow>
                    poems (fst (ratePoemFlow token put_ok refetched poemId v st))
                      = map formatPoem entries')))
         \<and> (api_approved e \<and> v \<in> set validRatings \<longrightarrow>
              (\<exists>entries'. rate admin poemId v entries = Inr entries'
                 \<and> find (\<lambda>e. api_id e = poemId) entries' = Some (e\<lparr>api_rating := Some v\<rparr>)
                 \<and> rating (formatPoem (e\<lparr>api_rating := Some v\<rparr>)) = Some v
                 \<and> filter (\<lambda>e. api_id e \<noteq> poemId) entries' = filter (\<lambda>e. api_id e \<noteq> poemId) entries))"
proof -
  have A: "\<not> approved p \<longrightarrow>
            ratePoemFlow token put_ok refetched poemId v st
              = (st\<lparr>error := Some ''Cannot rate an unapproved poem.''\<rparr>, None)"
    using assms(1) by (simp add: ratePoemFlow_def openRatingModal_def Let_def)
  have B: "\<not> api_approved e \<longrightarrow> rate admin poemId v entries = Inl Conflict"
    using assms(2) by (simp add: rate_def)
  have nz: "v \<noteq> 0" if "v \<in> set validRatings"
    using that by (auto simp: validRatings_def)
  have C: "approved p \<and> v \<in> set validRatings \<and> truthy token \<and> poemId \<noteq> []
              \<and> \<not> loading st \<and> error st = None \<longrightarrow>
              snd (ratePoemFlow token put_ok refetched poemId v st)
                = Some \<lparr>rate_poemId = poemId, rate_rating = v\<rparr>
              \<and> (put_ok \<longrightarrow> (\<forall>entries'. refetched = Some entries' \<longrightarrow>
                    poems (fst (ratePoemFlow token put_ok refetched poemId v st))
                      = map formatPoem entries'))"
    using nz assms(1)
    by (auto simp: ratePoemFlow_def openRatingModal_def handleStarClick_def handleRatePoem_def
          Let_def split: option.splits)
  have D: "api_approved e \<and> v \<in> set validRatings \<longrightarrow>
              (\<exists>entries'. rate admin poemId v entries = Inr entries'
                 \<and> find (\<lambda>e. api_id e = poemId) entries' = Some (e\<lparr>api_rating := Some v\<rparr>)
                 \<and> rating (formatPoem (e\<lparr>api_rating := Some v\<rparr>)) = Some v
                 \<and> filter (\<lambda>e. api_id e \<noteq> poemId) entries' = filter (\<lambda>e. api_id e \<noteq> poemId) entries)"
  proof
    assume ok: "api_approved e \<and> v \<in> set validRatings"
    let ?entries' = "map (\<lambda>e. if api_id e = poemId then e\<lparr>api_rating := Some v\<rparr> else e) entries"
    have 1: "rate admin poemId v entries = Inr ?entries'"
      using ok assms(2) by (simp add: rate_def)
    have 2: "find (\<lambda>e. api_id e = poemId) ?entries' = Some (e\<lparr>api_rating := Some v\<rparr>)"
      using find_map_if_update [where key = api_id and g = "\<lambda>e. e\<lparr>api_rating := Some v\<rparr>"
                                  and i = poemId and xs = entries]
        assms(2) by simp
    have 3: "rating (formatPoem (e\<lparr>api_rating := Some v\<rparr>)) = Some v"
      by (simp add: formatPoem_def nullish_def)
    have 4: "filter (\<lambda>e. api_id e \<noteq> poemId) ?entries' = filter (\<lambda>e. api_id e \<noteq> poemId) entries"
      by (induction entries) simp_all
    show "\<exists>entries'. rate admin poemId v entries = Inr entries'
                 \<and> find (\<lambda>e. api_id e = poemId) entries' = Some (e\<lparr>api_rating := Some v\<rparr>)
                 \<and> rating (formatPoem (e\<lparr>api_rating := Some v\<rparr>)) = Some v
                 \<and> filter (\<lambda>e. api_id e \<noteq> poemId) entries' = filter (\<lambda>e. api_id e \<noteq> poemId) entries"
      by (rule exI [of _ ?entries']) (rule conjI [OF 1 conjI [OF 2 conjI [OF 3 4]]])
  qed
  show ?thesis by (rule conjI [OF A conjI [OF B conjI [OF C D]]])
qed

theorem rate_requires_approval_witness:
  "ratePoemFlow (Some (js ''token'')) True None (js ''p1'') (7/2) sampleReviewPage
     = (sampleReviewPage\<lparr>error := Some ''Cannot rate an unapproved poem.''\<rparr>, None)
   \<and> rate admin (js ''p1'') (7/2) sampleEntries = Inl Conflict
   \<and> snd (ratePoemFlow (Some (js ''token'')) True None (js ''p2'') (7/2) sampleReviewPage)
       = Some \<lparr>rate_poemId = js ''p2'', rate_rating = 7/2\<rparr>
   \<and> (\<exists>entries'. rate admin (js ''p2'') (7/2) sampleEntries = Inr entries'
         \<and> find (\<lambda>e. api_id e = js ''p2'') entries'
             = Some ((sampleEntry ''p2'' True None)\<lparr>api_rating := Some (7/2)\<rparr>)
         \<and> rating (formatPoem ((sampleEntry ''p2'' True None)\<lparr>api_rating := Some (7/2)\<rparr>)) = Some (7/2)
         \<and> filter (\<lambda>e. api_id e \<noteq> js ''p2'') entries' = filter (\<lambda>e. api_id e \<noteq> js ''p2'') sampleEntries)"
proof -
  have ne: "js ''p1'' \<noteq> js ''p2''"
    by (simp add: js_def)
  have p1: "find (\<lambda>p. poem_id p = js ''p1'') (poems sampleReviewPage) = Some (samplePoem ''p1'' False)"
    by (simp add: sampleReviewPage_def samplePoem_sel)
  have e1: "find (\<lambda>e. api_id e = js ''p1'') sampleEntries = Some (sampleEntry ''p1'' False None)"
    by (simp add: sampleEntries_def sampleEntry_sel)
  have p2: "find (\<lambda>p. poem_id p = js ''p2'') (poems sampleReviewPage) = Some (samplePoem ''p2'' True)"
    using ne by (simp add: sampleReviewPage_def samplePoem_sel)
  have e2: "find (\<lambda>e. api_id e = js ''p2'') sampleEntries = Some (sampleEntry ''p2'' True None)"
    using ne by (simp add: sampleEntries_def sampleEntry_sel)
  have u1: "\<not> approved (samplePoem ''p1'' False)"
    by (simp add: samplePoem_sel)
  have u2: "\<not> api_approved (sampleEntry ''p1'' False None)"
    by (simp add: sampleEntry_sel)
  have a1: "approved (samplePoem ''p2'' True) \<and> 7/2 \<in> set validRatings \<and> truthy (Some (js ''token''))
            \<and> js ''p2'' \<noteq> [] \<and> \<not> loading sampleReviewPage \<and> error sampleReviewPage = None"
    by (simp add: samplePoem_sel validRatings_def js_def sampleReviewPage_def)
  have a2: "api_approved (sampleEntry ''p2'' True None) \<and> 7/2 \<in> set validRatings"
    by (simp add: sampleEntry_sel validRatings_def)
  note T1 = rate_requires_approval [OF p1 e1]
  note T2 = rate_requires_approval [OF p2 e2]
  have W1: "ratePoemFlow (Some (js ''token'')) True None (js ''p1'') (7/2) sampleReviewPage
              = (sampleReviewPage\<lparr>error := Some ''Cannot rate an unapproved poem.''\<rparr>, None)"
    by (rule mp [OF conjunct1 [OF T1] u1])
  have W2: "rate admin (js ''p1'') (7/2) sampleEntries = Inl Conflict"
    by (rule mp [OF conjunct1 [OF conjunct2 [OF T1]] u2])
  have W3: "snd (ratePoemFlow (Some (js ''token'')) True None (js ''p2'') (7/2) sampleReviewPage)
              = Some \<lparr>rate_poemId = js ''p2'', rate_rating = 7/2\<rparr>"
    by (rule conjunct1 [OF mp [OF conjunct1 [OF conjunct2 [OF conjunct2 [OF T2]]] a1]])
  have W4: "\<exists>entries'. rate admin (js ''p2'') (7/2) sampleEntries = Inr entries'
         \<and> find (\<lambda>e. api_id e = js ''p2'') entries'
             = Some ((sampleEntry ''p2'' True None)\<lparr>api_rating := Some (7/2)\<rparr>)
         \<and> rating (formatPoem ((sampleEntry ''p2'' True None)\<lparr>api_rating := Some (7/2)\<rparr>)) = Some (7/2)
         \<and> filter (\<lambda>e. api_id e \<noteq> js ''p2'') entries' = filter (\<lambda>e. api_id e \<noteq> js ''p2'') sampleEntries"
    by (rule mp [OF conjunct2 [OF conjunct2 [OF conjunct2 [OF T2]]] a2])
  show ?thesis
    by (rule conjI [OF W1 conjI [OF W2 conjI [OF W3 W4]]])
qed

section \<open>Submission intake\<close>

text \<open>
  C4. For a manual submission the form reports an error on the content field exactly
  when the trimmed content has fewer than 20 characters (19 is refused, 20 is accepted);
  in that case the form is invalid and submit sends no request. With 20 characters or
  more, a verse selected and the user logged in, the form is valid and submit posts the
  content.
\<close>

theorem manual_content_min_length:
  assumes "sp_submissionMethod st = Some manual"
  shows "((err_content (newErrors st) \<noteq> None) = (length (trim (sp_content st)) < 20))
         \<and> (length (trim (sp_content st)) < 20 \<longrightarrow>
              \<not> snd (validateForm st) \<and> snd (handleSubmit_poem token posted st) = None)
         \<and> (20 \<le> length (trim (sp_content st)) \<and> sp_inspiredByVerse st \<noteq> [] \<and> truthy token \<longrightarrow>
              snd (validateForm st)
              \<and> snd (handleSubmit_poem token posted st)
                  = Some (PostManual \<lparr>pj_type = sp_poemType st, pj_language = sp_language st,
                                       pj_submissionMethod = Some manual,
                                       pj_inspiredBy = sp_inspiredByVerse st\<rparr> (sp_content st)))"
proof -
  have A: "(err_content (newErrors st) \<noteq> None) = (length (trim (sp_content st)) < 20)"
    using assms by (auto simp: newErrors_def Let_def noErrors_def)
  have B: "length (trim (sp_content st)) < 20 \<longrightarrow>
              \<not> snd (validateForm st) \<and> snd (handleSubmit_poem token posted st) = None"
  proof
    assume "length (trim (sp_content st)) < 20"
    with A have "err_content (newErrors st) \<noteq> None" by simp
    then have "newErrors st \<noteq> noErrors" by (auto simp: noErrors_def)
    then show "\<not> snd (validateForm st) \<and> snd (handleSubmit_poem token posted st) = None"
      by (simp add: handleSubmit_poem_def validateForm_def Let_def)
  qed
  have C: "20 \<le> length (trim (sp_content st)) \<and> sp_inspiredByVerse st \<noteq> [] \<and> truthy token \<longrightarrow>
              snd (validateForm st)
              \<and> snd (handleSubmit_poem token posted st)
                  = Some (PostManual \<lparr>pj_type = sp_poemType st, pj_language = sp_language st,
                                       pj_submissionMethod = Some manual,
                                       pj_inspiredBy = sp_inspiredByVerse st\<rparr> (sp_content st))"
  proof
    assume h: "20 \<le> length (trim (sp_content st)) \<and> sp_inspiredByVerse st \<noteq> [] \<and> truthy token"
    then have ne: "trim (sp_content st) \<noteq> []" by auto
    from h have nl: "\<not> length (trim (sp_content st)) < 20" by simp
    have v: "newErrors st = noErrors"
      using assms h ne nl by (simp add: newErrors_def Let_def)
    have r: "submitRequest (st\<lparr>sp_errors := newErrors st\<rparr>)
               = Some (PostManual \<lparr>pj_type = sp_poemType st, pj_language = sp_language st,
                                    pj_submissionMethod = Some manual,
                                    pj_inspiredBy = sp_inspiredByVerse st\<rparr> (sp_content st))"
      using assms by (simp add: submitRequest_def Let_def)
    from v have 1: "snd (validateForm st)" by (simp add: validateForm_def)
    have 2: "snd (handleSubmit_poem token posted st)
               = submitRequest (st\<lparr>sp_errors := newErrors st\<rparr>)"
      using v h by (simp add: handleSubmit_poem_def validateForm_def Let_def)
    from 1 2 r
    show "snd (validateForm st)
              \<and> snd (handleSubmit_poem token posted st)
                  = Some (PostManual \<lparr>pj_type = sp_poemType st, pj_language = sp_language st,
                                       pj_submissionMethod = Some manual,
                                       pj_inspiredBy = sp_inspiredByVerse st\<rparr> (sp_content st))"
      by simp
  qed
  show ?thesis by (rule conjI [OF A conjI [OF B C]])
qed

theorem manual_content_min_length_witness:
  "length (trim (sp_content (sampleSubmitPage ''  The wind carries us  ''))) = 19
   \<and> err_content (newErrors (sampleSubmitPage ''  The wind carries us  '')) \<noteq> None
   \<and> snd (handleSubmit_poem (Some (js ''token'')) True (sampleSubmitPage ''  The wind carries us  '')) = None
   \<and> length (trim (sp_content (sampleSubmitPage ''  The wind carries us.  ''))) = 20
   \<and> err_content (newErrors (sampleSubmitPage ''  The wind carries us.  '')) = None
   \<and> snd (handleSubmit_poem (Some (js ''token'')) True (sampleSubmitPage ''  The wind carries us.  ''))
       = Some (PostManual \<lparr>pj_type = Some individual, pj_language = English,
                            pj_submissionMethod = Some manual, pj_inspiredBy = js ''v1''\<rparr>
                 (js ''  The wind carries us.  ''))"
proof -
  have m: "sp_submissionMethod (sampleSubmitPage c) = Some manual" for c
    by (simp add: sampleSubmitPage_def)
  have l19: "length (trim (sp_content (sampleSubmitPage ''  The wind carries us  ''))) = 19"
    by (simp add: sampleSubmitPage_def trim_def js_def isWhiteSpace_def)
  have l20: "length (trim (sp_content (sampleSubmitPage ''  The wind carries us.  ''))) = 20"
    by (simp add: sampleSubmitPage_def trim_def js_def isWhiteSpace_def)
  note T19 = manual_content_min_length [OF m [of "''  The wind carries us  ''"]]
  note T20 = manual_content_min_length [OF m [of "''  The wind carries us.  ''"]]
  have s19: "length (trim (sp_content (sampleSubmitPage ''  The wind carries us  ''))) < 20"
    using l19 by simp
  have s20: "\<not> length (trim (sp_content (sampleSubmitPage ''  The wind carries us.  ''))) < 20"
    using l20 by simp
  have g20: "20 \<le> length (trim (sp_content (sampleSubmitPage ''  The wind carries us.  '')))
             \<and> sp_inspiredByVerse (sampleSubmitPage ''  The wind carries us.  '') \<noteq> []
             \<and> truthy (Some (js ''token''))"
    using l20 by (simp add: sampleSubmitPage_def js_def)
  have W1: "err_content (newErrors (sampleSubmitPage ''  The wind carries us  '')) \<noteq> None"
    by (rule iffD2 [OF conjunct1 [OF T19] s19])
  have W2: "snd (handleSubmit_poem (Some (js ''token'')) True (sampleSubmitPage ''  The wind carries us  '')) = None"
    by (rule conjunct2 [OF mp [OF conjunct1 [OF conjunct2 [OF T19]] s19]])
  have W3: "err_content (newErrors (sampleSubmitPage ''  The wind carries us.  '')) = None"
    using conjunct1 [OF T20] s20 by simp
  have W4: "snd (handleSubmit_poem (Some (js ''token'')) True (sampleSubmitPage ''  The wind carries us.  ''))
       = Some (PostManual \<lparr>pj_type = Some individual, pj_language = English,
                            pj_submissionMethod = Some manual, pj_inspiredBy = js ''v1''\<rparr>
                 (js ''  The wind carries us.  ''))"
    using conjunct2 [OF mp [OF conjunct2 [OF conjunct2 [OF T20]] g20], of True]
    by (simp add: sampleSubmitPage_def)
  show ?thesis
    by (rule conjI [OF l19 conjI [OF W1 conjI [OF W2 conjI [OF l20 conjI [OF W3 W4]]]]])
qed

section \<open>Filtering\<close>

text \<open>
  C5, as the pages implement it. The checking page's filters on status, kind and language
  select exactly the poems that satisfy every filter that is set, and a filter left at
  \<open>all\<close> matches everything. The free-text search of the submissions page, when the
  query is not empty, selects exactly the poems whose non-empty content or whose language
  name contains the query, both compared in lower case; an empty query selects every
  poem. Searching in a list the three filters have selected gives exactly the poems that
  satisfy all four conditions.
\<close>

theorem filters_conjunction_and_search:
  "applyFilters statusF typeF languageF ps
     = filter (\<lambda>poem. (statusF = ''all'' \<or> Status_str (status poem) = statusF)
                     \<and> (typeF = ''all'' \<or> PoemType_str (poem_type poem) = typeF)
                     \<and> (languageF = ''all'' \<or> Language_str (language poem) = languageF)) ps
   \<and> filteredPoems (searchEffect toLowerCase st)
     = (if searchQuery st = [] then poems st
        else filter (\<lambda>poem. (\<exists>c. content poem = Some c \<and> c \<noteq> []
                                 \<and> sublist (toLowerCase (searchQuery st)) (toLowerCase c))
                            \<or> sublist (toLowerCase (searchQuery st))
                                 (toLowerCase (js (Language_str (language poem))))) (poems st))
   \<and> filteredPoems (searchEffect toLowerCase (st\<lparr>poems := applyFilters statusF typeF languageF ps\<rparr>))
     = filter (\<lambda>poem. (statusF = ''all'' \<or> Status_str (status poem) = statusF)
                     \<and> (typeF = ''all'' \<or> PoemType_str (poem_type poem) = typeF)
                     \<and> (languageF = ''all'' \<or> Language_str (language poem) = languageF)
                     \<and> (searchQuery st = []
                         \<or> (\<exists>c. content poem = Some c \<and> c \<noteq> []
                                 \<and> sublist (toLowerCase (searchQuery st)) (toLowerCase c))
                         \<or> sublist (toLowerCase (searchQuery st))
                                 (toLowerCase (js (Language_str (language poem)))))) ps"
proof -
  have A: "applyFilters statusF typeF languageF ps
     = filter (\<lambda>poem. (statusF = ''all'' \<or> Status_str (status poem) = statusF)
                     \<and> (typeF = ''all'' \<or> PoemType_str (poem_type poem) = typeF)
                     \<and> (languageF = ''all'' \<or> Language_str (language poem) = languageF)) ps"
    by (simp add: applyFilters_def Let_def conj_commute conj_left_commute)
  have m: "searchMatches toLowerCase q
           = (\<lambda>poem. (\<exists>c. content poem = Some c \<and> c \<noteq> [] \<and> sublist q (toLowerCase c))
              \<or> sublist q (toLowerCase (js (Language_str (language poem)))))" for q
  proof
    fix poem
    show "searchMatches toLowerCase q poem
           = ((\<exists>c. content poem = Some c \<and> c \<noteq> [] \<and> sublist q (toLowerCase c))
              \<or> sublist q (toLowerCase (js (Language_str (language poem)))))"
      by (cases "content poem") (auto simp: searchMatches_def js_includes_def)
  qed
  have B: "filteredPoems (searchEffect toLowerCase st)
     = (if searchQuery st = [] then poems st
        else filter (\<lambda>poem. (\<exists>c. content poem = Some c \<and> c \<noteq> []
                                 \<and> sublist (toLowerCase (searchQuery st)) (toLowerCase c))
                            \<or> sublist (toLowerCase (searchQuery st))
                                 (toLowerCase (js (Language_str (language poem))))) (poems st))" for st :: ViewPage
    by (simp add: searchEffect_def Let_def m)
  have C: "filteredPoems (searchEffect toLowerCase (st\<lparr>poems := applyFilters statusF typeF languageF ps\<rparr>))
     = filter (\<lambda>poem. (statusF = ''all'' \<or> Status_str (status poem) = statusF)
                     \<and> (typeF = ''all'' \<or> PoemType_str (poem_type poem) = typeF)
                     \<and> (languageF = ''all'' \<or> Language_str (language poem) = languageF)
                     \<and> (searchQuery st = []
                         \<or> (\<exists>c. content poem = Some c \<and> c \<noteq> []
                                 \<and> sublist (toLowerCase (searchQuery st)) (toLowerCase c))
                         \<or> sublist (toLowerCase (searchQuery st))
                                 (toLowerCase (js (Language_str (language poem)))))) ps"
  proof (cases "searchQuery st = []")
    case True
    then show ?thesis unfolding B A by simp
  next
    case False
    then show ?thesis unfolding B A by (simp add: conj_assoc)
  qed
  show ?thesis by (rule conjI [OF A conjI [OF B C]])
qed

theorem filters_conjunction_and_search_witness:
  "applyFilters ''araz_done'' ''all'' ''English''
       [samplePoem ''p1'' True, (samplePoem ''p2'' True)\<lparr>language := Urdu\<rparr>,
        (samplePoem ''p3'' True)\<lparr>status := araz_pending\<rparr>]
     = [samplePoem ''p1'' True]
   \<and> filteredPoems (searchEffect toLowerCaseASCII (sampleViewPage\<lparr>searchQuery := js ''ROSES''\<rparr>))
     = [samplePoem ''p1'' True]"
proof -
  have A: "applyFilters ''araz_done'' ''all'' ''English''
       [samplePoem ''p1'' True, (samplePoem ''p2'' True)\<lparr>language := Urdu\<rparr>,
        (samplePoem ''p3'' True)\<lparr>status := araz_pending\<rparr>]
     = [samplePoem ''p1'' True]"
    using conjunct1 [OF filters_conjunction_and_search
        [of "''araz_done''" "''all''" "''English''"
            "[samplePoem ''p1'' True, (samplePoem ''p2'' True)\<lparr>language := Urdu\<rparr>,
              (samplePoem ''p3'' True)\<lparr>status := araz_pending\<rparr>]"]]
    by (simp add: samplePoem_def)
  have B: "filteredPoems (searchEffect toLowerCaseASCII (sampleViewPage\<lparr>searchQuery := js ''ROSES''\<rparr>))
     = [samplePoem ''p1'' True]"
    using conjunct2 [OF filters_conjunction_and_search
        [of _ _ _ _ toLowerCaseASCII "sampleViewPage\<lparr>searchQuery := js ''ROSES''\<rparr>"]]
    by (simp add: sampleViewPage_def samplePoem_def toLowerCaseASCII_def js_def sublist_code)
  from A B show ?thesis by (rule conjI)
qed

text \<open>
  The free-text search does not match on the content alone: the query \<open>english\<close> selects
  a poem written in English whose content does not contain it.
\<close>

theorem search_matches_language_counterexample:
  "filteredPoems (searchEffect toLowerCaseASCII sampleViewPage) = [samplePoem ''p1'' True]
   \<and> searchQuery sampleViewPage = js ''english''
   \<and> content (samplePoem ''p1'' True) = Some (js ''Roses are red'')
   \<and> \<not> js_includes (toLowerCaseASCII (js ''Roses are red''))
                     (toLowerCaseASCII (js ''english''))"
  by (simp add: sampleViewPage_def samplePoem_def searchEffect_def searchMatches_def Let_def
        toLowerCaseASCII_def js_def js_includes_def sublist_code)

section \<open>Verse catalog\<close>

text \<open>
  C6. Creating or updating a verse is refused when the day is outside 1..10 or when the
  text or the attribution is empty after trimming: the form reports one of its two
  validation messages, sends no request to the backend and leaves the list of verses as
  it was, whatever the backend would have answered.
\<close>

theorem verse_rejected_before_mutation:
  assumes "fd_day (formData st) < 1 \<or> fd_day (formData st) > 10
           \<or> trim (fd_text (formData st)) = [] \<or> trim (fd_author (formData st)) = []"
  shows "snd (handleSubmit_verse response st) = None
         \<and> verses (fst (handleSubmit_verse response st)) = verses st
         \<and> (vp_error (fst (handleSubmit_verse response st)) = Some ''Text and Lehen are required.''
            \<or> vp_error (fst (handleSubmit_verse response st)) = Some ''Day must be between 1 and 10.'')"
  using assms by (auto simp: handleSubmit_verse_def)

theorem verse_rejected_before_mutation_witness:
  "snd (handleSubmit_verse None (sampleVersesPage 11)) = None
   \<and> verses (fst (handleSubmit_verse None (sampleVersesPage 11))) = verses (sampleVersesPage 11)
   \<and> (vp_error (fst (handleSubmit_verse None (sampleVersesPage 11)))
        = Some ''Text and Lehen are required.''
      \<or> vp_error (fst (handleSubmit_verse None (sampleVersesPage 11)))
        = Some ''Day must be between 1 and 10.'')"
proof -
  have h: "fd_day (formData (sampleVersesPage 11)) < 1 \<or> fd_day (formData (sampleVersesPage 11)) > 10
           \<or> trim (fd_text (formData (sampleVersesPage 11))) = []
           \<or> trim (fd_author (formData (sampleVersesPage 11))) = []"
    by (simp add: sampleVersesPage_def)
  show ?thesis
    by (rule verse_rejected_before_mutation [OF h])
qed

section \<open>Correction\<close>

text \<open>
  C7. Recording a correction needs approval. With a poem selected, a corrected text or a
  file supplied and the administrator logged in: on an unapproved poem the page reports
  that the Nazm must be approved first, sends no request and leaves every poem as it
  was; on an approved poem, once the request has succeeded, the poem's \<open>arazContent\<close> is
  the text entered and its status is \<open>araz_done\<close>, and the other poems are unchanged.
\<close>

theorem araz_requires_approval:
  assumes "selectedPoemId st = Some i" and "i \<noteq> []" and "truthy token"
    and "trim (arazContentInput st) \<noteq> [] \<or> selectedFile st \<noteq> None"
    and "find (\<lambda>p. poem_id p = i) (poems st) = Some e"
  shows "(\<not> approved e \<longrightarrow>
            handleArazUpload token post_ok st
              = (st\<lparr>error := Some ''Cannot upload araz version. Nazm must be approved first.'',
                    loading := False\<rparr>, None))
         \<and> (approved e \<longrightarrow>
              poems (fst (handleArazUpload token True st))
                = map (\<lambda>poem. if poem_id poem = i
                               then poem\<lparr>arazContent := Some (arazContentInput st), status := araz_done\<rparr>
                               else poem) (poems st))"
  using assms by (auto simp: handleArazUpload_def Let_def)

theorem araz_requires_approval_witness:
  "handleArazUpload (Some (js ''token'')) True (sampleCheckingPage ''p1'')
     = ((sampleCheckingPage ''p1'')
          \<lparr>error := Some ''Cannot upload araz version. Nazm must be approved first.'',
           loading := False\<rparr>, None)
   \<and> poems (fst (handleArazUpload (Some (js ''token'')) True (sampleCheckingPage ''p2'')))
     = map (\<lambda>poem. if poem_id poem = js ''p2''
                    then poem\<lparr>arazContent := Some (arazContentInput (sampleCheckingPage ''p2'')),
                              status := araz_done\<rparr>
                    else poem) (poems (sampleCheckingPage ''p2''))"
proof -
  have ne: "js ''p1'' \<noteq> js ''p2''"
    by (simp add: js_def)
  have s: "selectedPoemId (sampleCheckingPage c) = Some (js c)" for c
    by (simp add: sampleCheckingPage_def)
  have n1: "js ''p1'' \<noteq> []" and n2: "js ''p2'' \<noteq> []"
    by (simp_all add: js_def)
  have t: "truthy (Some (js ''token''))"
    by (simp add: js_def)
  have c: "trim (arazContentInput (sampleCheckingPage c)) \<noteq> [] \<or> selectedFile (sampleCheckingPage c) \<noteq> None" for c
    by (simp add: sampleCheckingPage_def trim_def js_def isWhiteSpace_def)
  have f1: "find (\<lambda>p. poem_id p = js ''p1'') (poems (sampleCheckingPage ''p1'')) = Some (samplePoem ''p1'' False)"
    by (simp add: sampleCheckingPage_def samplePoem_sel)
  have f2: "find (\<lambda>p. poem_id p = js ''p2'') (poems (sampleCheckingPage ''p2'')) = Some (samplePoem ''p2'' True)"
    using ne by (simp add: sampleCheckingPage_def samplePoem_sel)
  have u: "\<not> approved (samplePoem ''p1'' False)" and a: "approved (samplePoem ''p2'' True)"
    by (simp_all add: samplePoem_sel)
  note T1 = araz_requires_approval [OF s n1 t c f1]
  note T2 = araz_requires_approval [OF s n2 t c f2]
  show ?thesis
    by (rule conjI [OF mp [OF conjunct1 [OF T1] u] mp [OF conjunct2 [OF T2] a]])
qed

text \<open>
  C8. Setting a poem's status back to \<open>araz_pending\<close> changes the status of that poem
  and nothing else: the list keeps its length and order, every poem keeps all its other
  fields, \<open>arazContent\<close> among them, the poems with another id are unchanged, and when the
  request fails nothing changes at all.
\<close>

theorem status_update_changes_status_only:
  assumes "st' = handleStatusUpdate put_ok poemId araz_pending st"
  shows "length (poems st') = length (poems st)
         \<and> (\<forall>k < length (poems st).
               (poems st' ! k)\<lparr>status := status (poems st ! k)\<rparr> = poems st ! k
               \<and> arazContent (poems st' ! k) = arazContent (poems st ! k)
               \<and> (poem_id (poems st ! k) \<noteq> poemId \<longrightarrow> poems st' ! k = poems st ! k)
               \<and> (poem_id (poems st ! k) = poemId \<and> put_ok \<longrightarrow> status (poems st' ! k) = araz_pending))"
  using assms by (cases put_ok) (auto simp: handleStatusUpdate_def)

theorem status_update_changes_status_only_witness:
  "length (poems (handleStatusUpdate True (js ''p2'') araz_pending (sampleCheckingPage ''p2'')))
     = length (poems (sampleCheckingPage ''p2''))
   \<and> poems (handleStatusUpdate True (js ''p2'') araz_pending (sampleCheckingPage ''p2'')) ! 0
       = poems (sampleCheckingPage ''p2'') ! 0
   \<and> (poems (handleStatusUpdate True (js ''p2'') araz_pending (sampleCheckingPage ''p2'')) ! 1)
        \<lparr>status := status (poems (sampleCheckingPage ''p2'') ! 1)\<rparr>
       = poems (sampleCheckingPage ''p2'') ! 1
   \<and> arazContent (poems (handleStatusUpdate True (js ''p2'') araz_pending (sampleCheckingPage ''p2'')) ! 1)
       = arazContent (poems (sampleCheckingPage ''p2'') ! 1)
   \<and> status (poems (handleStatusUpdate True (js ''p2'') araz_pending (sampleCheckingPage ''p2'')) ! 1)
       = araz_pending
   \<and> status (poems (sampleCheckingPage ''p2'') ! 1) = araz_done"
proof -
  note T = status_update_changes_status_only [OF refl, of True "js ''p2''" "sampleCheckingPage ''p2''"]
  have ne: "js ''p1'' \<noteq> js ''p2''"
    by (simp add: js_def)
  have k0: "(0::nat) < length (poems (sampleCheckingPage ''p2''))"
    and k1: "(1::nat) < length (poems (sampleCheckingPage ''p2''))"
    by (simp_all add: sampleCheckingPage_def)
  have i0: "poem_id (poems (sampleCheckingPage ''p2'') ! 0) \<noteq> js ''p2''"
    using ne by (simp add: sampleCheckingPage_def samplePoem_sel)
  have i1: "poem_id (poems (sampleCheckingPage ''p2'') ! 1) = js ''p2'' \<and> True"
    by (simp add: sampleCheckingPage_def samplePoem_sel)
  have d: "status (poems (sampleCheckingPage ''p2'') ! 1) = araz_done"
    by (simp add: sampleCheckingPage_def samplePoem_sel)
  note R0 = mp [OF spec [OF conjunct2 [OF T]] k0]
  note R1 = mp [OF spec [OF conjunct2 [OF T]] k1]
  note W0 = mp [OF conjunct1 [OF conjunct2 [OF conjunct2 [OF R0]]] i0]
  note W1 = conjunct1 [OF R1]
  note W2 = conjunct1 [OF conjunct2 [OF R1]]
  note W3 = mp [OF conjunct2 [OF conjunct2 [OF conjunct2 [OF R1]]] i1]
  show ?thesis
    by (rule conjI [OF conjunct1 [OF T] conjI [OF W0 conjI [OF W1 conjI [OF W2 conjI [OF W3 d]]]]])
qed

section \<open>Displayed ratings\<close>

text \<open>
  C10, as the pages implement it. The admin pages' mapping shows a poem whose rating is
  null with the rating 0, so that there it is the same as the poem with rating 0. The
  best-poems page drops the poems whose rating is null before it maps them: they never
  reach its list and every poem of that list comes from an entry with a rating. An entry
  whose rating is 0 is kept: it is in the ranked list, shown with rating 0, and the
  ranked list is in descending order of rating. The page's list is exactly the first
  three poems of the ranked list, so an entry rated 0 is selected when it is among the
  top three, and always when at most three entries have a rating.
\<close>

theorem unrated_displayed_as_zero:
  "(api_rating p = None \<longrightarrow>
      rating (formatPoem p) = Some 0 \<and> formatPoem p = formatPoem (p\<lparr>api_rating := Some 0\<rparr>))
   \<and> bestPoems (filter (\<lambda>p. api_rating p \<noteq> None) ps) = bestPoems ps
   \<and> (\<forall>q \<in> set (bestPoems ps). \<exists>p \<in> set ps. api_rating p \<noteq> None \<and> q = formatBestPoem p)
   \<and> (p \<in> set ps \<and> api_rating p = Some 0 \<and> length (filter hasRating ps) \<le> 3 \<longrightarrow>
        formatBestPoem p \<in> set (bestPoems ps) \<and> rating (formatBestPoem p) = Some 0)
   \<and> (p \<in> set ps \<and> api_rating p = Some 0 \<longrightarrow>
        formatBestPoem p \<in> set (sortByRatingDesc (map formatBestPoem (filter hasRating ps)))
        \<and> rating (formatBestPoem p) = Some 0)
   \<and> sorted (map (\<lambda>q. - nullish (rating q) 0)
                (sortByRatingDesc (map formatBestPoem (filter hasRating ps))))
   \<and> (\<forall>q. (q \<in> set (bestPoems ps))
          = (\<exists>i < min 3 (length (sortByRatingDesc (map formatBestPoem (filter hasRating ps)))).
               sortByRatingDesc (map formatBestPoem (filter hasRating ps)) ! i = q))"
proof -
  have A: "api_rating p = None \<longrightarrow>
      rating (formatPoem p) = Some 0 \<and> formatPoem p = formatPoem (p\<lparr>api_rating := Some 0\<rparr>)"
    by (simp add: formatPoem_def nullish_def)
  have C: "\<forall>q \<in> set (bestPoems ps). \<exists>p \<in> set ps. api_rating p \<noteq> None \<and> q = formatBestPoem p"
  proof
    fix q assume "q \<in> set (bestPoems ps)"
    then have "q \<in> set (sortByRatingDesc (map formatBestPoem (filter hasRating ps)))"
      unfolding bestPoems_def by (rule in_set_takeD)
    then obtain p where "p \<in> set ps" "hasRating p" "q = formatBestPoem p"
      by (auto simp: sortByRatingDesc_def)
    moreover from \<open>hasRating p\<close> have "api_rating p \<noteq> None"
      by (auto simp: hasRating_def split: option.splits)
    ultimately show "\<exists>p \<in> set ps. api_rating p \<noteq> None \<and> q = formatBestPoem p" by blast
  qed
  have D: "p \<in> set ps \<and> api_rating p = Some 0 \<and> length (filter hasRating ps) \<le> 3 \<longrightarrow>
        formatBestPoem p \<in> set (bestPoems ps) \<and> rating (formatBestPoem p) = Some 0"
  proof
    assume h: "p \<in> set ps \<and> api_rating p = Some 0 \<and> length (filter hasRating ps) \<le> 3"
    then have "hasRating p" by (simp add: hasRating_def)
    with h have "formatBestPoem p \<in> set (bestPoems ps)"
      by (simp add: set_bestPoems_small)
    moreover from h have "rating (formatBestPoem p) = Some 0"
      by (simp add: rating_formatBestPoem nullish_def)
    ultimately show "formatBestPoem p \<in> set (bestPoems ps) \<and> rating (formatBestPoem p) = Some 0"
      by simp
  qed
  have E: "p \<in> set ps \<and> api_rating p = Some 0 \<longrightarrow>
        formatBestPoem p \<in> set (sortByRatingDesc (map formatBestPoem (filter hasRating ps)))
        \<and> rating (formatBestPoem p) = Some 0"
    by (simp add: sortByRatingDesc_def hasRating_def rating_formatBestPoem nullish_def)
  have F: "sorted (map (\<lambda>q. - nullish (rating q) 0)
                (sortByRatingDesc (map formatBestPoem (filter hasRating ps))))"
    unfolding sortByRatingDesc_def by (rule sorted_sort_key)
  have G: "\<forall>q. (q \<in> set (bestPoems ps))
          = (\<exists>i < min 3 (length (sortByRatingDesc (map formatBestPoem (filter hasRating ps)))).
               sortByRatingDesc (map formatBestPoem (filter hasRating ps)) ! i = q)"
    unfolding bestPoems_def by (rule allI) (rule set_take_conv_nth)
  show ?thesis
    by (rule conjI [OF A conjI [OF bestPoems_ignores_unrated
          conjI [OF C conjI [OF D conjI [OF E conjI [OF F G]]]]]])
qed

theorem unrated_displayed_as_zero_witness:
  "rating (formatPoem (sampleEntry ''p1'' True None)) = Some 0
   \<and> formatPoem (sampleEntry ''p1'' True None)
       = formatPoem ((sampleEntry ''p1'' True None)\<lparr>api_rating := Some 0\<rparr>)
   \<and> formatBestPoem (sampleEntry ''p2'' True (Some 0))
       \<in> set (bestPoems [sampleEntry ''p1'' True None, sampleEntry ''p2'' True (Some 0)])
   \<and> rating (formatBestPoem (sampleEntry ''p2'' True (Some 0))) = Some 0
   \<and> formatBestPoem (sampleEntry ''p4'' True (Some 0))
       \<in> set (sortByRatingDesc (map formatBestPoem (filter hasRating fourRatedZero)))
   \<and> sortByRatingDesc (map formatBestPoem (filter hasRating fourRatedZero)) ! 0
       = formatBestPoem (sampleEntry ''p1'' True (Some 0))
   \<and> formatBestPoem (sampleEntry ''p1'' True (Some 0)) \<in> set (bestPoems fourRatedZero)
   \<and> bestPoems fourRatedZero
       = [formatBestPoem (sampleEntry ''p1'' True (Some 0)),
          formatBestPoem (sampleEntry ''p2'' True (Some 0)),
          formatBestPoem (sampleEntry ''p3'' True (Some 0))]"
proof -
  have n: "api_rating (sampleEntry ''p1'' True None) = None"
    by (simp add: sampleEntry_sel)
  have z: "sampleEntry ''p2'' True (Some 0)
             \<in> set [sampleEntry ''p1'' True None, sampleEntry ''p2'' True (Some 0)]
           \<and> api_rating (sampleEntry ''p2'' True (Some 0)) = Some 0
           \<and> length (filter hasRating [sampleEntry ''p1'' True None, sampleEntry ''p2'' True (Some 0)]) \<le> 3"
    by (simp add: sampleEntry_sel hasRating_def)
  have z4: "sampleEntry ''p4'' True (Some 0) \<in> set fourRatedZero
            \<and> api_rating (sampleEntry ''p4'' True (Some 0)) = Some 0"
    by (simp add: fourRatedZero_def sampleEntry_sel)
  have r0: "sortByRatingDesc (map formatBestPoem (filter hasRating fourRatedZero)) ! 0
              = formatBestPoem (sampleEntry ''p1'' True (Some 0))"
    by (simp add: fourRatedZero_def sortByRatingDesc_def hasRating_def sampleEntry_sel
          rating_formatBestPoem nullish_def)
  have l0: "0 < min 3 (length (sortByRatingDesc (map formatBestPoem (filter hasRating fourRatedZero))))"
    by (simp add: fourRatedZero_def sortByRatingDesc_def hasRating_def sampleEntry_sel)
  have b: "bestPoems fourRatedZero
       = [formatBestPoem (sampleEntry ''p1'' True (Some 0)),
          formatBestPoem (sampleEntry ''p2'' True (Some 0)),
          formatBestPoem (sampleEntry ''p3'' True (Some 0))]"
    by (simp add: fourRatedZero_def bestPoems_def sortByRatingDesc_def hasRating_def
          sampleEntry_sel rating_formatBestPoem nullish_def)
  note T1 = unrated_displayed_as_zero [of "sampleEntry ''p1'' True None" "[]"]
  note T2 = unrated_displayed_as_zero
              [of "sampleEntry ''p2'' True (Some 0)"
                  "[sampleEntry ''p1'' True None, sampleEntry ''p2'' True (Some 0)]"]
  note T4 = unrated_displayed_as_zero [of "sampleEntry ''p4'' True (Some 0)" fourRatedZero]
  note W1 = mp [OF conjunct1 [OF T1] n]
  note W2 = mp [OF conjunct1 [OF conjunct2 [OF conjunct2 [OF conjunct2 [OF T2]]]] z]
  note W3 = conjunct1 [OF mp [OF conjunct1 [OF conjunct2 [OF conjunct2 [OF conjunct2 [OF conjunct2 [OF T4]]]]] z4]]
  note G4 = spec [OF conjunct2 [OF conjunct2 [OF conjunct2 [OF conjunct2 [OF conjunct2 [OF conjunct2 [OF T4]]]]]],
                  of "formatBestPoem (sampleEntry ''p1'' True (Some 0))"]
  have ex: "\<exists>i < min 3 (length (sortByRatingDesc (map formatBestPoem (filter hasRating fourRatedZero)))).
              sortByRatingDesc (map formatBestPoem (filter hasRating fourRatedZero)) ! i
                = formatBestPoem (sampleEntry ''p1'' True (Some 0))"
    using l0 r0 by blast
  note W4 = iffD2 [OF G4 ex]
  show ?thesis
    by (rule conjI [OF conjunct1 [OF W1] conjI [OF conjunct2 [OF W1]
          conjI [OF conjunct1 [OF W2] conjI [OF conjunct2 [OF W2]
            conjI [OF W3 conjI [OF r0 conjI [OF W4 b]]]]]]])
qed

text \<open>
  The best-poems page gives a poem whose rating is null no displayed rating at all: the
  page's list for a single unrated entry is empty, while the admin mapping shows the same
  entry with rating 0.
\<close>

theorem best_poems_drop_unrated_counterexample:
  "api_rating (sampleEntry ''p1'' True None) = None
   \<and> bestPoems [sampleEntry ''p1'' True None] = []
   \<and> rating (formatPoem (sampleEntry ''p1'' True None)) = Some 0"
  by (simp add: sampleEntry_def bestPoems_def hasRating_def sortByRatingDesc_def formatPoem_def
        nullish_def)

end
